theory Spec2Isabelle
  imports Complex_Main
begin

section \<open>Python primitives used by relay\_emulator.py\<close>

text \<open>
  Lines and configuration values are Python \<open>str\<close> objects. They are modelled as HOL
  strings whose characters stand for the code points below 256; the wire protocol is
  ASCII. Case mapping is modelled on the ASCII letters and leaves every other character
  as it is: the program only ever compares a case-mapped string with an ASCII constant,
  and no character outside ASCII maps into such a constant, so every comparison of the
  program has the value Python gives it. Clock readings (\<open>time.time() * 1000\<close>) are
  modelled as exact real numbers of milliseconds; the binary rounding of Python floats
  is outside the model.
\<close>

definition py_isspace :: "char \<Rightarrow> bool" where
  \<comment> \<open>\<open>str.isspace\<close> on one code point below 256: TAB..CR, FS..US, space, NEL, NBSP\<close>
  "py_isspace c =
     (let n = (of_char c :: nat)
      in (9 \<le> n \<and> n \<le> 13) \<or> (28 \<le> n \<and> n \<le> 32) \<or> n = 133 \<or> n = 160)"

definition py_strip :: "string \<Rightarrow> string" where
  \<comment> \<open>\<open>s.strip()\<close>\<close>
  "py_strip s = rev (dropWhile py_isspace (rev (dropWhile py_isspace s)))"

definition lower_char :: "char \<Rightarrow> char" where
  "lower_char c =
     (let n = (of_char c :: nat) in if 65 \<le> n \<and> n \<le> 90 then char_of (n + 32) else c)"

definition upper_char :: "char \<Rightarrow> char" where
  "upper_char c =
     (let n = (of_char c :: nat) in if 97 \<le> n \<and> n \<le> 122 then char_of (n - 32) else c)"

definition py_lower :: "string \<Rightarrow> string" where
  \<comment> \<open>\<open>s.lower()\<close>\<close>
  "py_lower s = map lower_char s"

definition py_upper :: "string \<Rightarrow> string" where
  \<comment> \<open>\<open>s.upper()\<close>\<close>
  "py_upper s = map upper_char s"

definition is_digit :: "char \<Rightarrow> bool" where
  "is_digit c = (let n = (of_char c :: nat) in 48 \<le> n \<and> n \<le> 57)"

definition digit_val :: "char \<Rightarrow> nat" where
  "digit_val c = (of_char c :: nat) - 48"

text \<open>
  The digits of an integer literal as \<open>int()\<close> accepts them: a digit, then digits, each
  optionally preceded by one underscore. The accumulator holds the value read so far.
\<close>

fun py_digits :: "nat \<Rightarrow> string \<Rightarrow> nat option" where
  "py_digits acc [] = Some acc"
| "py_digits acc [c] = (if is_digit c then Some (10 * acc + digit_val c) else None)"
| "py_digits acc (c # d # cs) =
     (if is_digit c then py_digits (10 * acc + digit_val c) (d # cs)
      else if c = CHR ''_'' \<and> is_digit d then py_digits (10 * acc + digit_val d) cs
      else None)"

definition int_isspace :: "char \<Rightarrow> bool" where
  \<comment> \<open>the white space \<open>int()\<close> skips around a literal: TAB..CR and space, and NEL and
      NBSP, which it first turns into spaces; FS..US are white space for \<open>strip\<close> but
      not for \<open>int()\<close>\<close>
  "int_isspace c =
     (let n = (of_char c :: nat)
      in (9 \<le> n \<and> n \<le> 13) \<or> n = 32 \<or> n = 133 \<or> n = 160)"

definition int_strip :: "string \<Rightarrow> string" where
  "int_strip s = rev (dropWhile int_isspace (rev (dropWhile int_isspace s)))"

definition max_str_digits :: nat where
  \<comment> \<open>\<open>sys.get_int_max_str_digits()\<close>, which the program leaves at its default\<close>
  "max_str_digits = 4300"

definition py_unsigned :: "string \<Rightarrow> nat option" where
  \<comment> \<open>a literal without its sign; more digits than the limit are a \<open>ValueError\<close>,
      underscores not counted\<close>
  "py_unsigned body =
     (case body of
        [] \<Rightarrow> None
      | c # cs \<Rightarrow>
          if is_digit c \<and> length (filter is_digit body) \<le> max_str_digits
          then py_digits (digit_val c) cs else None)"

definition py_int :: "string \<Rightarrow> int option" where
  \<comment> \<open>\<open>int(s)\<close> in base 10: \<open>None\<close> is the \<open>ValueError\<close>\<close>
  "py_int s =
     (case int_strip s of
        [] \<Rightarrow> None
      | c # cs \<Rightarrow>
          if c = CHR ''-'' then map_option (\<lambda>n. - int n) (py_unsigned cs)
          else if c = CHR ''+'' then map_option int (py_unsigned cs)
          else map_option int (py_unsigned (c # cs)))"

fun digits_of :: "nat \<Rightarrow> string" where
  "digits_of n =
     (if n < 10 then [char_of (48 + n)]
      else digits_of (n div 10) @ [char_of (48 + n mod 10)])"

declare digits_of.simps [simp del]

definition py_str :: "int \<Rightarrow> string" where
  \<comment> \<open>\<open>str(n)\<close> of an integer\<close>
  "py_str i = (if i < 0 then CHR ''-'' # digits_of (nat (- i)) else digits_of (nat i))"

definition py_trunc :: "real \<Rightarrow> int" where
  \<comment> \<open>\<open>int(x)\<close> of a float: rounds toward zero\<close>
  "py_trunc x = (if 0 \<le> x then \<lfloor>x\<rfloor> else \<lceil>x\<rceil>)"

definition newline :: string where
  "newline = [CHR 0x0A]"

section \<open>The emulator object\<close>

text \<open>
  The fields of \<open>RelayEmulatorApp\<close> that the controller logic reads or writes. \<open>ser\<close> is
  \<open>None\<close> while no port is open; an open port is modelled by the lines handed to
  \<open>ser.write\<close> so far. A write that raises inside the serial library is caught by the
  source's handlers, which only log, so it changes nothing else. The \<open>_var\<close> fields
  are the Tk variables behind the configuration widgets. Logging and the scheduling of
  \<open>update_ui\<close> touch no field below and are left out.
\<close>

record emulator =
  running :: bool
  ser :: "string list option"
  lock_state :: int
  rte_count :: int
  door_state :: string
  unlock_start_time :: real
  unlock_duration :: int
  rte_override_active :: bool
  rte_override_start_time :: real
  rte_override_duration :: int
  last_rte_state :: bool
  billing_partner :: string
  aux_type :: string
  aux_normally_open :: bool
  rte_count_enabled :: bool
  billing_partner_var :: string
  aux_type_var :: string
  aux_normally_open_var :: bool
  rte_count_enabled_var :: bool
  unlock_duration_var :: string

definition initial :: emulator where
  \<comment> \<open>\<open>__init__\<close>, before \<open>load_settings\<close>\<close>
  "initial =
     \<lparr> running = False, ser = None,
       lock_state = 0, rte_count = 0, door_state = ''CLOSED'',
       unlock_start_time = 0, unlock_duration = 5000,
       rte_override_active = False, rte_override_start_time = 0,
       rte_override_duration = 0, last_rte_state = False,
       billing_partner = ''DFACS'', aux_type = ''RTE'',
       aux_normally_open = True, rte_count_enabled = True,
       billing_partner_var = ''DFACS'', aux_type_var = ''RTE'',
       aux_normally_open_var = True, rte_count_enabled_var = True,
       unlock_duration_var = ''5'' \<rparr>"

section \<open>Status reporting\<close>

definition ser_write :: "string \<Rightarrow> emulator \<Rightarrow> emulator" where
  \<comment> \<open>\<open>self.ser.write(line.encode())\<close> inside \<open>try\<close>; without a port the attribute
      error is caught and nothing is written\<close>
  "ser_write line s =
     (case ser s of None \<Rightarrow> s | Some out \<Rightarrow> s\<lparr>ser := Some (out @ [line])\<rparr>)"

definition time_remaining :: "real \<Rightarrow> emulator \<Rightarrow> int" where
  \<comment> \<open>the \<open>time_remaining\<close> local of \<open>send_status\<close>; \<open>now\<close> is \<open>time.time() * 1000\<close>\<close>
  "time_remaining now s =
     (if rte_override_active s then
        (let elapsed = now - rte_override_start_time s
         in if elapsed < real_of_int (rte_override_duration s)
            then py_trunc ((real_of_int (rte_override_duration s) - elapsed) / 1000)
            else 0)
      else if lock_state s = 1 then
        (let elapsed = now - unlock_start_time s
         in if elapsed < real_of_int (unlock_duration s)
            then py_trunc ((real_of_int (unlock_duration s) - elapsed) / 1000)
            else 0)
      else 0)"

definition status_record :: "real \<Rightarrow> emulator \<Rightarrow> string" where
  \<comment> \<open>the \<open>status\<close> string built by \<open>send_status\<close>\<close>
  "status_record now s =
     ''STATUS,'' @ py_str (lock_state s) @ '','' @ py_str (rte_count s) @ '','' @
     (if py_upper (aux_type_var s) \<in> set [''DPS'', ''BOND''] then door_state s else ''NA'') @
     '','' @ py_str (time_remaining now s) @ '','' @
     (if rte_override_active s then ''RTE_ACTIVE'' else ''NORMAL'')"

definition send_status :: "real \<Rightarrow> emulator \<Rightarrow> emulator" where
  "send_status now s =
     (if ser s = None then s
      else if py_upper (billing_partner_var s) \<noteq> ''DFACS'' then s
      else ser_write (status_record now s @ newline) s)"

section \<open>Commands\<close>

definition rejection :: string where
  "rejection = ''REJECTED,RTE_OVERRIDE_ACTIVE'' @ newline"

definition unlock_door :: "real \<Rightarrow> real \<Rightarrow> int \<Rightarrow> emulator \<Rightarrow> emulator" where
  \<comment> \<open>\<open>now\<close> is the clock reading stored as the start of the window, \<open>later\<close> the
      reading taken by the status emission that follows\<close>
  "unlock_door now later duration s =
     (if rte_override_active s then
        (if py_upper (billing_partner_var s) = ''DFACS'' \<and> ser s \<noteq> None
         then ser_write rejection s else s)
      else send_status later
             (s\<lparr>lock_state := 1, unlock_duration := duration * 1000,
                unlock_start_time := now\<rparr>))"

definition parse_duration :: "string \<Rightarrow> string \<times> int" where
  \<comment> \<open>the head of \<open>process_normal_commands\<close>: the command word and the duration\<close>
  "parse_duration cmd =
     (if CHR '' '' \<in> set cmd then
        (let part0 = takeWhile (\<lambda>c. c \<noteq> CHR '' '') cmd;
             part1 = tl (dropWhile (\<lambda>c. c \<noteq> CHR '' '') cmd)
         in (part0, case py_int part1 of
                      Some n \<Rightarrow> max 1 (min 3600 n)
                    | None \<Rightarrow> 5))
      else (cmd, 5))"

definition permanent_unlock :: "real \<Rightarrow> emulator \<Rightarrow> emulator" where
  \<comment> \<open>the body of each \<open>"a"\<close> branch\<close>
  "permanent_unlock later s = send_status later (s\<lparr>lock_state := 2\<rparr>)"

definition lock :: "real \<Rightarrow> emulator \<Rightarrow> emulator" where
  \<comment> \<open>the body of each \<open>"z"\<close> branch\<close>
  "lock later s = send_status later (s\<lparr>lock_state := 0\<rparr>)"

definition acknowledge :: "real \<Rightarrow> emulator \<Rightarrow> emulator" where
  \<comment> \<open>the body of the \<open>"ack"\<close> branch\<close>
  "acknowledge later s =
     send_status later (if rte_count_enabled s then s\<lparr>rte_count := 0\<rparr> else s)"

definition process_normal_commands :: "real \<Rightarrow> real \<Rightarrow> string \<Rightarrow> emulator \<Rightarrow> emulator" where
  "process_normal_commands now later cmd0 s =
     (let (cmd, duration) = parse_duration cmd0
      in if billing_partner s = ''ABC'' then
           (if cmd = ''0'' \<and> lock_state s = 0 then unlock_door now later duration s
            else if py_lower cmd = ''a'' \<and> lock_state s = 0 then permanent_unlock later s
            else if py_lower cmd = ''z'' then lock later s
            else s)
         else if billing_partner s = ''PEAK'' then
           (if (py_lower cmd = ''open sesame!'' \<or> cmd = ''0'') \<and> lock_state s = 0
            then unlock_door now later duration s
            else if py_lower cmd = ''a'' \<and> lock_state s = 0 then permanent_unlock later s
            else if py_lower cmd = ''z'' then lock later s
            else s)
         else if billing_partner s = ''DFACS'' then
           (if (py_lower cmd = ''open sesame!'' \<or> cmd = ''0'') \<and> lock_state s = 0
            then unlock_door now later duration s
            else if py_lower cmd = ''a'' \<and> lock_state s = 0 then permanent_unlock later s
            else if py_lower cmd = ''z'' then lock later s
            else if py_lower cmd = ''ack'' then acknowledge later s
            else if py_lower cmd = ''status'' then send_status later s
            else s)
         else s)"

definition refresh_config :: "emulator \<Rightarrow> emulator" where
  \<comment> \<open>"Update configuration from UI" in \<open>handle_command\<close>\<close>
  "refresh_config s =
     s\<lparr>billing_partner := py_upper (billing_partner_var s),
       aux_type := py_upper (aux_type_var s),
       aux_normally_open := aux_normally_open_var s,
       rte_count_enabled := rte_count_enabled_var s\<rparr>"

definition handle_command :: "real \<Rightarrow> real \<Rightarrow> string \<Rightarrow> emulator \<Rightarrow> emulator" where
  "handle_command now later command s0 =
     (let s = refresh_config s0;
          cmd = py_strip command
      in if rte_override_active s then
           (if py_upper cmd = ''STATUS'' then send_status later s
            else if billing_partner s = ''DFACS'' then
              (if ser s \<noteq> None then ser_write rejection s else s)
            else s)
         else process_normal_commands now later cmd s)"

section \<open>The RTE priority override\<close>

definition activate_rte_override :: "real \<Rightarrow> real \<Rightarrow> emulator \<Rightarrow> emulator" where
  "activate_rte_override now later s =
     (let s1 = s\<lparr>rte_override_active := True, rte_override_start_time := now,
                 rte_override_duration := 5000\<rparr>;
          s2 = s1\<lparr>lock_state := 1, unlock_start_time := rte_override_start_time s1,
                  unlock_duration := rte_override_duration s1\<rparr>;
          s3 = (if rte_count_enabled s2 then s2\<lparr>rte_count := rte_count s2 + 1\<rparr> else s2);
          s4 = send_status later s3
      in if py_upper (billing_partner_var s4) = ''DFACS'' \<and> ser s4 \<noteq> None
         then ser_write (''RTE_OVERRIDE,ACTIVATED,'' @
                         py_str (rte_override_duration s4 div 1000) @ newline) s4
         else s4)"

definition deactivate_rte_override :: "real \<Rightarrow> emulator \<Rightarrow> emulator" where
  "deactivate_rte_override later s =
     (let s1 = send_status later
                 (s\<lparr>rte_override_active := False, lock_state := 0, unlock_duration := 5000\<rparr>)
      in if py_upper (billing_partner_var s1) = ''DFACS'' \<and> ser s1 \<noteq> None
         then ser_write (''RTE_OVERRIDE,DEACTIVATED'' @ newline) s1
         else s1)"

definition handle_rte_override_timer :: "real \<Rightarrow> real \<Rightarrow> emulator \<Rightarrow> emulator" where
  "handle_rte_override_timer now later s =
     (if rte_override_active s then
        (let elapsed = now - rte_override_start_time s
         in if elapsed \<ge> real_of_int (rte_override_duration s)
            then deactivate_rte_override later s else s)
      else s)"

definition handle_unlock_timer :: "real \<Rightarrow> real \<Rightarrow> emulator \<Rightarrow> emulator" where
  "handle_unlock_timer now later s =
     (if lock_state s = 1 then
        (let elapsed = now - unlock_start_time s
         in if elapsed \<ge> real_of_int (unlock_duration s)
            then send_status later (s\<lparr>lock_state := 0, unlock_duration := 5000\<rparr>) else s)
      else s)"

definition trigger_rte :: "real \<Rightarrow> real \<Rightarrow> emulator \<Rightarrow> emulator" where
  "trigger_rte now later s =
     (if py_upper (aux_type_var s) \<in> set [''RTE'', ''REX''] then
        (if lock_state s = 0 then activate_rte_override now later s else s)
      else s)"

section \<open>The manual controls\<close>

definition toggle_door_state :: "real \<Rightarrow> emulator \<Rightarrow> emulator" where
  "toggle_door_state later s =
     (if py_upper (aux_type_var s) \<in> set [''DPS'', ''BOND''] then
        send_status later
          (s\<lparr>door_state := (if door_state s = ''CLOSED'' then ''OPEN'' else ''CLOSED'')\<rparr>)
      else s)"

definition toggle_lock_state :: "real \<Rightarrow> emulator \<Rightarrow> emulator" where
  "toggle_lock_state later s =
     send_status later (s\<lparr>lock_state := (if lock_state s = 0 then 2 else 0)\<rparr>)"

definition manual_unlock :: "real \<Rightarrow> real \<Rightarrow> emulator \<Rightarrow> emulator" where
  "manual_unlock now later s =
     (case py_int (unlock_duration_var s) of
        Some n \<Rightarrow> unlock_door now later (max 1 (min 3600 n)) s
      | None \<Rightarrow> s)"

definition connect_serial :: "emulator \<Rightarrow> emulator" where
  \<comment> \<open>a port that opened; a failure to open changes no field\<close>
  "connect_serial s = s\<lparr>ser := Some [], running := True\<rparr>"

definition disconnect_serial :: "emulator \<Rightarrow> emulator" where
  "disconnect_serial s = s\<lparr>running := False, ser := None\<rparr>"

text \<open>
  Everything that writes a field of the record while the object runs. The polling loop
  \<open>emulation_loop\<close> does four things on each pass, each under its own guard: it hands a
  received line to \<open>handle_command\<close> when a port is open and the stripped line is not
  empty, checks the override timer, checks the unlock timer when no override is active,
  and emits the status when the billing partner is DFACS and a second has passed. The
  buttons call their callbacks, the widgets edit the Tk variables (\<open>load_settings\<close> sets
  the same variables), and the port is opened and closed.
\<close>

datatype operation =
    ReceiveLine string
  | RteOverrideTimer
  | UnlockTimer
  | Heartbeat
  | TriggerRte
  | ToggleDoorState
  | ToggleLockState
  | ManualUnlock
  | SetBillingPartner string
  | SetAuxType string
  | SetAuxNormallyOpen bool
  | SetRteCountEnabled bool
  | SetUnlockDuration string
  | ConnectSerial
  | DisconnectSerial

fun run :: "real \<Rightarrow> real \<Rightarrow> operation \<Rightarrow> emulator \<Rightarrow> emulator" where
  "run now later (ReceiveLine raw) s =
     (if ser s \<noteq> None \<and> py_strip raw \<noteq> [] then handle_command now later (py_strip raw) s
      else s)"
| "run now later RteOverrideTimer s = handle_rte_override_timer now later s"
| "run now later UnlockTimer s =
     (if rte_override_active s then s else handle_unlock_timer now later s)"
| "run now later Heartbeat s =
     (if py_upper (billing_partner_var s) = ''DFACS'' then send_status later s else s)"
| "run now later TriggerRte s = trigger_rte now later s"
| "run now later ToggleDoorState s = toggle_door_state later s"
| "run now later ToggleLockState s = toggle_lock_state later s"
| "run now later ManualUnlock s = manual_unlock now later s"
| "run now later (SetBillingPartner v) s = s\<lparr>billing_partner_var := v\<rparr>"
| "run now later (SetAuxType v) s = s\<lparr>aux_type_var := v\<rparr>"
| "run now later (SetAuxNormallyOpen b) s = s\<lparr>aux_normally_open_var := b\<rparr>"
| "run now later (SetRteCountEnabled b) s = s\<lparr>rte_count_enabled_var := b\<rparr>"
| "run now later (SetUnlockDuration v) s = s\<lparr>unlock_duration_var := v\<rparr>"
| "run now later ConnectSerial s = connect_serial s"
| "run now later DisconnectSerial s = disconnect_serial s"

text \<open>A run of the object: operations with the clock readings each one takes.\<close>

fun run_all :: "(real \<times> real \<times> operation) list \<Rightarrow> emulator \<Rightarrow> emulator" where
  "run_all [] s = s"
| "run_all ((now, later, opn) # rest) s = run_all rest (run now later opn s)"

text \<open>The states the object can be in: the constructed one and what operations make of it.\<close>

inductive reachable :: "emulator \<Rightarrow> bool" where
  constructed: "reachable initial"
| operated: "reachable s \<Longrightarrow> reachable (run now later opn s)"

text \<open>The state the controller owns, as against its configuration and its port.\<close>

definition owned :: "emulator \<Rightarrow> (int \<times> int \<times> string) \<times> (real \<times> int) \<times> (bool \<times> real \<times> int)" where
  "owned s =
     ((lock_state s, rte_count s, door_state s),
      (unlock_start_time s, unlock_duration s),
      (rte_override_active s, rte_override_start_time s, rte_override_duration s))"

text \<open>
  The duration as the specification words it: the trailing token of the line, that is the
  text after its last space, read as an integer and clamped, with 5 as the default.
\<close>

definition trailing_token :: "string \<Rightarrow> string" where
  "trailing_token line = rev (takeWhile (\<lambda>c. c \<noteq> CHR '' '') (rev line))"

definition spec_duration :: "string \<Rightarrow> int" where
  "spec_duration line =
     (case py_int (trailing_token line) of
        Some n \<Rightarrow> max 1 (min 3600 n)
      | None \<Rightarrow> 5)"

section \<open>What a write and a status emission leave alone\<close>

lemma ser_write_fields:
  "running (ser_write l s) = running s"
  "lock_state (ser_write l s) = lock_state s"
  "rte_count (ser_write l s) = rte_count s"
  "door_state (ser_write l s) = door_state s"
  "unlock_start_time (ser_write l s) = unlock_start_time s"
  "unlock_duration (ser_write l s) = unlock_duration s"
  "rte_override_active (ser_write l s) = rte_override_active s"
  "rte_override_start_time (ser_write l s) = rte_override_start_time s"
  "rte_override_duration (ser_write l s) = rte_override_duration s"
  "last_rte_state (ser_write l s) = last_rte_state s"
  "billing_partner (ser_write l s) = billing_partner s"
  "aux_type (ser_write l s) = aux_type s"
  "aux_normally_open (ser_write l s) = aux_normally_open s"
  "rte_count_enabled (ser_write l s) = rte_count_enabled s"
  "billing_partner_var (ser_write l s) = billing_partner_var s"
  "aux_type_var (ser_write l s) = aux_type_var s"
  "aux_normally_open_var (ser_write l s) = aux_normally_open_var s"
  "rte_count_enabled_var (ser_write l s) = rte_count_enabled_var s"
  "unlock_duration_var (ser_write l s) = unlock_duration_var s"
  by (simp_all add: ser_write_def split: option.split)

lemma ser_write_ser: "ser (ser_write l s) = map_option (\<lambda>out. out @ [l]) (ser s)"
  by (simp add: ser_write_def split: option.split)

lemma send_status_fields:
  "running (send_status t s) = running s"
  "lock_state (send_status t s) = lock_state s"
  "rte_count (send_status t s) = rte_count s"
  "door_state (send_status t s) = door_state s"
  "unlock_start_time (send_status t s) = unlock_start_time s"
  "unlock_duration (send_status t s) = unlock_duration s"
  "rte_override_active (send_status t s) = rte_override_active s"
  "rte_override_start_time (send_status t s) = rte_override_start_time s"
  "rte_override_duration (send_status t s) = rte_override_duration s"
  "last_rte_state (send_status t s) = last_rte_state s"
  "billing_partner (send_status t s) = billing_partner s"
  "aux_type (send_status t s) = aux_type s"
  "aux_normally_open (send_status t s) = aux_normally_open s"
  "rte_count_enabled (send_status t s) = rte_count_enabled s"
  "billing_partner_var (send_status t s) = billing_partner_var s"
  "aux_type_var (send_status t s) = aux_type_var s"
  "aux_normally_open_var (send_status t s) = aux_normally_open_var s"
  "rte_count_enabled_var (send_status t s) = rte_count_enabled_var s"
  "unlock_duration_var (send_status t s) = unlock_duration_var s"
  by (simp_all add: send_status_def ser_write_fields)

lemma send_status_ser:
  "ser (send_status t s) =
     (if py_upper (billing_partner_var s) = ''DFACS''
      then map_option (\<lambda>out. out @ [status_record t s @ newline]) (ser s) else ser s)"
  by (simp add: send_status_def ser_write_ser)

lemma owned_send_status: "owned (send_status t s) = owned s"
  by (simp add: owned_def send_status_fields)

lemma owned_ser_write: "owned (ser_write l s) = owned s"
  by (simp add: owned_def ser_write_fields)

lemma owned_refresh_config: "owned (refresh_config s) = owned s"
  by (simp add: owned_def refresh_config_def)

lemma time_remaining_refresh: "time_remaining t (refresh_config s) = time_remaining t s"
  by (simp add: refresh_config_def time_remaining_def Let_def)

lemma status_record_refresh: "status_record t (refresh_config s) = status_record t s"
  by (simp add: status_record_def time_remaining_refresh) (simp add: refresh_config_def)

section \<open>Facts about the commands and the timers\<close>

lemma activate_fields:
  "rte_override_active (activate_rte_override now later s)"
  "rte_override_start_time (activate_rte_override now later s) = now"
  "rte_override_duration (activate_rte_override now later s) = 5000"
  "lock_state (activate_rte_override now later s) = 1"
  "unlock_start_time (activate_rte_override now later s) = now"
  "unlock_duration (activate_rte_override now later s) = 5000"
  "door_state (activate_rte_override now later s) = door_state s"
  "rte_count (activate_rte_override now later s) =
     (if rte_count_enabled s then rte_count s + 1 else rte_count s)"
  by (simp_all add: activate_rte_override_def Let_def ser_write_fields send_status_fields)

lemma lower_char_space: "lower_char (CHR '' '') = CHR '' ''"
  by (simp add: lower_char_def)

lemma space_in_lower: "CHR '' '' \<in> set cmd \<Longrightarrow> CHR '' '' \<in> set (py_lower cmd)"
  unfolding py_lower_def using lower_char_space by (metis image_eqI set_map)

lemma parse_duration_no_space: "CHR '' '' \<notin> set cmd \<Longrightarrow> parse_duration cmd = (cmd, 5)"
  by (simp add: parse_duration_def)

lemma lower_z:
  assumes "py_lower cmd = ''z''"
  shows "parse_duration cmd = (cmd, 5)" and "cmd \<noteq> ''0''" and "py_lower cmd \<noteq> ''a''"
    and "py_lower cmd \<noteq> ''open sesame!''"
proof -
  have "CHR '' '' \<notin> set cmd" using space_in_lower [of cmd] assms by auto
  then show "parse_duration cmd = (cmd, 5)" by (rule parse_duration_no_space)
  show "cmd \<noteq> ''0''" using assms by (auto simp: py_lower_def lower_char_def)
  show "py_lower cmd \<noteq> ''a''" using assms by simp
  show "py_lower cmd \<noteq> ''open sesame!''" using assms by simp
qed

lemma lower_ack:
  assumes "py_lower cmd = ''ack''"
  shows "parse_duration cmd = (cmd, 5)" and "cmd \<noteq> ''0''" and "py_lower cmd \<noteq> ''a''"
    and "py_lower cmd \<noteq> ''open sesame!''" and "py_lower cmd \<noteq> ''z''"
proof -
  have "CHR '' '' \<notin> set cmd" using space_in_lower [of cmd] assms by auto
  then show "parse_duration cmd = (cmd, 5)" by (rule parse_duration_no_space)
  show "cmd \<noteq> ''0''" using assms by (auto simp: py_lower_def lower_char_def)
  show "py_lower cmd \<noteq> ''a''" using assms by simp
  show "py_lower cmd \<noteq> ''open sesame!''" using assms by simp
  show "py_lower cmd \<noteq> ''z''" using assms by simp
qed

lemma process_lock:
  assumes "billing_partner s \<in> {''ABC'', ''PEAK'', ''DFACS''}" and "py_lower cmd = ''z''"
  shows "process_normal_commands now later cmd s = lock later s"
  using assms(1) lower_z [OF assms(2)] assms(2)
  by (auto simp: process_normal_commands_def)

lemma handle_lock:
  assumes "\<not> rte_override_active s"
    and "py_upper (billing_partner_var s) \<in> {''ABC'', ''PEAK'', ''DFACS''}"
    and "py_lower (py_strip line) = ''z''"
  shows "handle_command now later line s = lock later (refresh_config s)"
proof -
  have "billing_partner (refresh_config s) \<in> {''ABC'', ''PEAK'', ''DFACS''}"
    using assms(2) by (simp add: refresh_config_def)
  from process_lock [OF this assms(3)] assms(1) show ?thesis
    by (simp add: handle_command_def Let_def refresh_config_def)
qed

lemma refresh_config_lock: "refresh_config (lock later (refresh_config s)) = lock later (refresh_config s)"
  by (rule emulator.equality)
     (simp_all add: lock_def refresh_config_def send_status_fields send_status_ser)

lemma lock_again: "lock_state s = 0 \<Longrightarrow> lock later s = send_status later s"
  by (cases s) (simp add: lock_def)

lemma process_ack:
  assumes "billing_partner s = ''DFACS''" and "py_lower cmd = ''ack''"
  shows "process_normal_commands now later cmd s = acknowledge later s"
  using assms(1) lower_ack [OF assms(2)] assms(2)
  by (auto simp: process_normal_commands_def)

lemma remaining_floor:
  fixes start now :: real and d :: int
  shows "(if now - start < real_of_int d
          then py_trunc ((real_of_int d - (now - start)) / 1000) else 0) =
         \<lfloor>max 0 (start + real_of_int d - now) / 1000\<rfloor>"
proof (cases "now - start < real_of_int d")
  case True
  then have pos: "0 < start + real_of_int d - now" by simp
  then have "max 0 (start + real_of_int d - now) = real_of_int d - (now - start)" by simp
  moreover have "0 \<le> (real_of_int d - (now - start)) / 1000" using pos by simp
  moreover have "start + real_of_int d - now = real_of_int d - (now - start)" by simp
  ultimately show ?thesis using True by (simp only: py_trunc_def if_True)
next
  case False
  then have "max 0 (start + real_of_int d - now) = 0" by simp
  then show ?thesis using False by simp
qed

lemma remaining_nonneg:
  fixes start now :: real and d :: int
  shows "0 \<le> (if now - start < real_of_int d
               then py_trunc ((real_of_int d - (now - start)) / 1000) else 0)"
  by (simp add: remaining_floor)

section \<open>Facts about the parser and about the override duration\<close>

lemma split_first_space:
  assumes "CHR '' '' \<notin> set head"
  shows "takeWhile (\<lambda>c. c \<noteq> CHR '' '') (head @ CHR '' '' # rest) = head"
    and "tl (dropWhile (\<lambda>c. c \<noteq> CHR '' '') (head @ CHR '' '' # rest)) = rest"
proof -
  have all: "\<forall>c\<in>set head. c \<noteq> CHR '' ''" using assms by blast
  show "takeWhile (\<lambda>c. c \<noteq> CHR '' '') (head @ CHR '' '' # rest) = head"
    using all by (simp add: takeWhile_append2)
  have "dropWhile (\<lambda>c. c \<noteq> CHR '' '') (head @ CHR '' '' # rest) = CHR '' '' # rest"
    using all by (simp add: dropWhile_append2)
  then show "tl (dropWhile (\<lambda>c. c \<noteq> CHR '' '') (head @ CHR '' '' # rest)) = rest" by simp
qed

lemma parse_duration_split:
  assumes "CHR '' '' \<notin> set head"
  shows "parse_duration (head @ CHR '' '' # rest) =
           (head, case py_int rest of Some n \<Rightarrow> max 1 (min 3600 n) | None \<Rightarrow> 5)"
  by (simp add: parse_duration_def split_first_space [OF assms] Let_def)

lemma py_digits_all:
  "\<forall>c\<in>set ds. is_digit c \<Longrightarrow>
   py_digits acc ds = Some (foldl (\<lambda>a c. 10 * a + digit_val c) acc ds)"
  by (induction acc ds rule: py_digits.induct) auto

lemma is_digit_char_of: "(k::nat) < 10 \<Longrightarrow> is_digit (char_of (48 + k))"
  by (simp add: is_digit_def)

lemma digit_val_char_of: "(k::nat) < 10 \<Longrightarrow> digit_val (char_of (48 + k)) = k"
  by (simp add: digit_val_def)

lemma digits_of_digits: "\<forall>c\<in>set (digits_of n). is_digit c"
proof (induction n rule: digits_of.induct)
  case (1 n)
  show ?case
  proof (cases "n < 10")
    case True
    then show ?thesis by (subst digits_of.simps) (simp add: is_digit_char_of)
  next
    case False
    then show ?thesis using 1
      by (subst digits_of.simps) (simp add: is_digit_char_of)
  qed
qed

lemma digits_of_value: "foldl (\<lambda>a c. 10 * a + digit_val c) 0 (digits_of n) = n"
proof (induction n rule: digits_of.induct)
  case (1 n)
  show ?case
  proof (cases "n < 10")
    case True
    then show ?thesis by (subst digits_of.simps) (simp add: digit_val_char_of)
  next
    case False
    then show ?thesis using 1
      by (subst digits_of.simps) (simp add: digit_val_char_of)
  qed
qed

lemma digits_of_nonempty: "digits_of n \<noteq> []"
  by (subst digits_of.simps) simp

lemma filter_digits_of: "filter is_digit (digits_of n) = digits_of n"
  using digits_of_digits [of n] by (simp add: filter_id_conv)

lemma py_unsigned_digits_of:
  assumes "length (digits_of n) \<le> max_str_digits"
  shows "py_unsigned (digits_of n) = Some n"
proof (cases "digits_of n")
  case Nil
  then show ?thesis using digits_of_nonempty by blast
next
  case (Cons c cs)
  have dig: "is_digit c" "\<forall>d\<in>set cs. is_digit d"
    using digits_of_digits [of n] Cons by simp_all
  have len: "length (filter is_digit (c # cs)) \<le> max_str_digits"
    using assms filter_digits_of [of n] by (simp add: Cons)
  have v: "foldl (\<lambda>a c. 10 * a + digit_val c) (digit_val c) cs = n"
    using digits_of_value [of n] by (simp add: Cons)
  have "py_digits (digit_val c) cs = Some n"
    using py_digits_all [OF dig(2), of "digit_val c"] v by simp
  then show ?thesis using dig(1) len by (simp add: py_unsigned_def Cons)
qed

lemma digit_not_space: "is_digit c \<Longrightarrow> \<not> int_isspace c"
  by (auto simp: is_digit_def int_isspace_def Let_def)

lemma int_strip_id: "\<forall>c\<in>set xs. \<not> int_isspace c \<Longrightarrow> int_strip xs = xs"
proof -
  assume a: "\<forall>c\<in>set xs. \<not> int_isspace c"
  have 1: "dropWhile int_isspace xs = xs" using a by (cases xs) simp_all
  have "\<forall>c\<in>set (rev xs). \<not> int_isspace c" using a by simp
  then have 2: "dropWhile int_isspace (rev xs) = rev xs" by (cases "rev xs") simp_all
  show ?thesis by (simp add: int_strip_def 1 2)
qed

text \<open>The decimal text of an integer is read back as that integer, within the digit limit.\<close>

lemma py_int_py_str:
  assumes "length (digits_of (nat \<bar>i\<bar>)) \<le> max_str_digits"
  shows "py_int (py_str i) = Some i"
proof (cases "i < 0")
  case True
  let ?ds = "digits_of (nat (- i))"
  have len: "length ?ds \<le> max_str_digits" using assms True by simp
  have ns: "\<forall>c\<in>set (CHR ''-'' # ?ds). \<not> int_isspace c"
    using digits_of_digits [of "nat (- i)"] digit_not_space by (auto simp: int_isspace_def)
  have "int_strip (py_str i) = CHR ''-'' # ?ds"
    using True int_strip_id [OF ns] by (simp add: py_str_def)
  then show ?thesis using True by (simp add: py_int_def py_unsigned_digits_of [OF len])
next
  case False
  let ?ds = "digits_of (nat i)"
  have len: "length ?ds \<le> max_str_digits" using assms False by simp
  have ns: "\<forall>c\<in>set ?ds. \<not> int_isspace c"
    using digits_of_digits [of "nat i"] digit_not_space by auto
  have st: "int_strip (py_str i) = ?ds"
    using False int_strip_id [OF ns] by (simp add: py_str_def)
  obtain c cs where cs: "?ds = c # cs" using digits_of_nonempty [of "nat i"] by (cases ?ds) auto
  have d: "is_digit c" using digits_of_digits [of "nat i"] cs by simp
  have nm: "c \<noteq> CHR ''-''" "c \<noteq> CHR ''+''" using d by (auto simp: is_digit_def)
  have "py_unsigned (c # cs) = Some (nat i)"
    using py_unsigned_digits_of [OF len] cs by simp
  then show ?thesis using False st cs nm by (simp add: py_int_def)
qed

lemma integer_token_clamped:
  "CHR '' '' \<notin> set head \<Longrightarrow> length (digits_of (nat \<bar>n\<bar>)) \<le> max_str_digits \<Longrightarrow>
   parse_duration (head @ CHR '' '' # py_str n) =
     (head, if n < 1 then 1 else if 3600 < n then 3600 else n)"
  by (simp add: parse_duration_split py_int_py_str max_def min_def)

lemma handle_command_count_override:
  "rte_override_active s \<Longrightarrow> rte_count (handle_command now later line s) = rte_count s"
  by (simp add: handle_command_def Let_def send_status_fields ser_write_fields
      refresh_config_def)

lemma deactivate_count:
  "rte_count (deactivate_rte_override later s) = rte_count s"
  by (simp add: deactivate_rte_override_def Let_def send_status_fields ser_write_fields)

lemma unlock_door_count: "rte_count (unlock_door now later d s) = rte_count s"
  by (simp add: unlock_door_def ser_write_fields send_status_fields)

text \<open>
  While the override is active and the lock is temporarily unlocked, no operation changes
  the RTE counter: \<open>ack\<close> is rejected and a further trigger is ignored.
\<close>

lemma run_keeps_count_during_override:
  "rte_override_active s \<Longrightarrow> lock_state s = 1 \<Longrightarrow>
   rte_count (run now later opn s) = rte_count s"
  by (cases opn)
     (simp_all add: handle_command_count_override handle_rte_override_timer_def
        deactivate_count trigger_rte_def toggle_door_state_def toggle_lock_state_def
        manual_unlock_def unlock_door_count connect_serial_def disconnect_serial_def
        send_status_fields Let_def split: option.split)

lemma after_trigger:
  "rte_override_active (trigger_rte t0 t1 initial)"
  "lock_state (trigger_rte t0 t1 initial) = 1"
  "rte_count (trigger_rte t0 t1 initial) = 1"
proof -
  have a: "py_upper (aux_type_var initial) \<in> set [''RTE'', ''REX'']" by code_simp
  have l: "lock_state initial = 0" by (simp add: initial_def)
  have e: "rte_count_enabled initial" "rte_count initial = 0" by (simp_all add: initial_def)
  have r: "trigger_rte t0 t1 initial = activate_rte_override t0 t1 initial"
    using a l by (simp add: trigger_rte_def)
  show "rte_override_active (trigger_rte t0 t1 initial)"
    and "lock_state (trigger_rte t0 t1 initial) = 1"
    and "rte_count (trigger_rte t0 t1 initial) = 1"
    using e by (simp_all add: r activate_fields)
qed

lemma count_after_trigger:
  "rte_count (run now later opn (run t0 t1 TriggerRte initial)) = 1"
proof -
  have "rte_count (run now later opn (trigger_rte t0 t1 initial)) =
        rte_count (trigger_rte t0 t1 initial)"
    using after_trigger(1) after_trigger(2) by (rule run_keeps_count_during_override)
  then show ?thesis by (simp add: after_trigger(3))
qed

text \<open>
  An activation moves the counter by the cached flag \<open>rte_count_enabled\<close>, the field that
  \<open>handle_command\<close> copies from the check box, not by the check box itself.
\<close>

lemma counter_follows_cached_flag:
  "rte_count (activate_rte_override now later s) =
     (if rte_count_enabled s then rte_count s + 1 else rte_count s)"
  "py_upper (aux_type_var s) \<notin> {''RTE'', ''REX''} \<or> lock_state s \<noteq> 0 \<Longrightarrow>
     rte_count (trigger_rte now later s) = rte_count s"
  by (auto simp: trigger_rte_def activate_fields)

lemma owned_initial:
  "owned initial = ((0, 0, ''CLOSED''), (0, 5000), (False, 0, 0))"
  by (simp add: owned_def initial_def)

lemma reachable_after_trigger: "reachable (run t0 t1 TriggerRte initial)"
  by (rule reachable.operated [OF reachable.constructed])

section \<open>The claims\<close>

text \<open>
  C1. In the PEAK and DFACS dialects the phrase "open sesame!" (any letter case), received
  while locked with no override active, is meant to start a timed unlock of 5 seconds.
  The code does not do so: \<open>process_normal_commands\<close> first cuts the line at its first
  space, so the command word is \<open>open\<close>, which no branch recognises, and the lock stays
  locked. The same state does unlock on \<open>0\<close>.
\<close>

theorem open_sesame_not_recognized:
  "parse_duration ''open sesame!'' = (''open'', 5) \<and>
   handle_command 1000 1001 ''open sesame!'' (initial\<lparr>billing_partner_var := ''PEAK''\<rparr>) =
     refresh_config (initial\<lparr>billing_partner_var := ''PEAK''\<rparr>) \<and>
   lock_state (handle_command 1000 1001 ''open sesame!''
                 (initial\<lparr>billing_partner_var := ''PEAK''\<rparr>)) = 0 \<and>
   lock_state (handle_command 1000 1001 ''Open Sesame!'' initial) = 0 \<and>
   lock_state (handle_command 1000 1001 ''0'' (initial\<lparr>billing_partner_var := ''PEAK''\<rparr>)) = 1"
  by code_simp


text \<open>
  C2. While the override is active, a command that is not a status query leaves the
  owned state (lock state, RTE counter, door state, unlock timer, override state) as it
  is, and the rejection line is written exactly when the billing partner is DFACS; a
  status query is served by the status emission, which also leaves the owned state as it
  is. Commands arrive through the open port: the polling loop calls \<open>handle_command\<close>
  only when \<open>self.ser\<close> is set.
\<close>

theorem override_blocks_commands:
  assumes act: "rte_override_active s" and port: "ser s = Some out"
  shows "(py_upper (py_strip line) \<noteq> ''STATUS'' \<longrightarrow>
            owned (handle_command now later line s) = owned s \<and>
            ser (handle_command now later line s) =
              Some (if py_upper (billing_partner_var s) = ''DFACS''
                    then out @ [rejection] else out)) \<and>
         (py_upper (py_strip line) = ''STATUS'' \<longrightarrow>
            owned (handle_command now later line s) = owned s \<and>
            ser (handle_command now later line s) =
              Some (if py_upper (billing_partner_var s) = ''DFACS''
                    then out @ [status_record later s @ newline] else out))"
proof -
  let ?r = "refresh_config s"
  have r_act: "rte_override_active ?r" and r_port: "ser ?r = Some out"
    and r_bp: "billing_partner ?r = py_upper (billing_partner_var s)"
    and r_bpv: "billing_partner_var ?r = billing_partner_var s"
    using act port by (simp_all add: refresh_config_def)
  have rej: "py_upper (py_strip line) \<noteq> ''STATUS'' \<Longrightarrow>
      handle_command now later line s =
        ?r\<lparr>ser := Some (if py_upper (billing_partner_var s) = ''DFACS''
                         then out @ [rejection] else out)\<rparr>"
    using r_act r_port r_bp by (simp add: handle_command_def Let_def ser_write_def)
  have st: "py_upper (py_strip line) = ''STATUS'' \<Longrightarrow>
      handle_command now later line s =
        ?r\<lparr>ser := Some (if py_upper (billing_partner_var s) = ''DFACS''
                         then out @ [status_record later s @ newline] else out)\<rparr>"
    using r_act r_port r_bpv
    by (simp add: handle_command_def Let_def send_status_def ser_write_def status_record_refresh)
  have own: "\<And>v. owned (?r\<lparr>ser := v\<rparr>) = owned s"
    by (simp add: owned_def refresh_config_def)
  show ?thesis using rej st own by simp
qed


text \<open>The hypotheses hold after an RTE trigger on a connected DFACS emulator.\<close>

theorem override_blocks_commands_witness:
  "rte_override_active (trigger_rte 1000 1001 (connect_serial initial)) \<and>
   ser (trigger_rte 1000 1001 (connect_serial initial)) =
     Some [''STATUS,1,1,NA,4,RTE_ACTIVE'' @ newline, ''RTE_OVERRIDE,ACTIVATED,5'' @ newline] \<and>
   py_upper (py_strip ''z'') \<noteq> ''STATUS'' \<and>
   py_upper (py_strip ''status'') = ''STATUS'' \<and>
   owned (handle_command 2000 2001 ''z'' (trigger_rte 1000 1001 (connect_serial initial))) =
     owned (trigger_rte 1000 1001 (connect_serial initial)) \<and>
   ser (handle_command 2000 2001 ''z'' (trigger_rte 1000 1001 (connect_serial initial))) =
     Some [''STATUS,1,1,NA,4,RTE_ACTIVE'' @ newline, ''RTE_OVERRIDE,ACTIVATED,5'' @ newline,
           rejection] \<and>
   ser (handle_command 2000 2001 ''status'' (trigger_rte 1000 1001 (connect_serial initial))) =
     Some [''STATUS,1,1,NA,4,RTE_ACTIVE'' @ newline, ''RTE_OVERRIDE,ACTIVATED,5'' @ newline,
           ''STATUS,1,1,NA,3,RTE_ACTIVE'' @ newline]"
proof -
  let ?s = "trigger_rte 1000 1001 (connect_serial initial)"
  let ?a = "''STATUS,1,1,NA,4,RTE_ACTIVE'' @ newline"
  let ?b = "''RTE_OVERRIDE,ACTIVATED,5'' @ newline"
  have act: "rte_override_active ?s" by code_simp
  have port: "ser ?s = Some [?a, ?b]" by code_simp
  have z: "py_upper (py_strip ''z'') \<noteq> ''STATUS''" by code_simp
  have q: "py_upper (py_strip ''status'') = ''STATUS''" by code_simp
  have bp: "py_upper (billing_partner_var ?s) = ''DFACS''" by code_simp
  have rec: "status_record 2001 ?s = ''STATUS,1,1,NA,3,RTE_ACTIVE''" by code_simp
  note th = override_blocks_commands [OF act port, of _ 2000 2001]
  have zz: "owned (handle_command 2000 2001 ''z'' ?s) = owned ?s \<and>
            ser (handle_command 2000 2001 ''z'' ?s) =
              Some (if py_upper (billing_partner_var ?s) = ''DFACS''
                    then [?a, ?b] @ [rejection] else [?a, ?b])"
    using th [of "''z''"] z by blast
  have qq: "ser (handle_command 2000 2001 ''status'' ?s) =
              Some (if py_upper (billing_partner_var ?s) = ''DFACS''
                    then [?a, ?b] @ [status_record 2001 ?s @ newline] else [?a, ?b])"
    using th [of "''status''"] q by blast
  have 2: "ser (handle_command 2000 2001 ''z'' ?s) = Some [?a, ?b, rejection]"
    using zz bp by simp
  have 3: "ser (handle_command 2000 2001 ''status'' ?s) =
             Some [?a, ?b, ''STATUS,1,1,NA,3,RTE_ACTIVE'' @ newline]"
    using qq bp rec by simp
  show ?thesis using act port z q zz 2 3 by blast
qed

text \<open>
  C3. A trigger of the RTE input while the auxiliary input type is RTE or REX and the lock
  is locked activates the override with a duration of 5000 ms and forces the lock to
  temporarily unlocked, the unlock timer taking the start and the duration of the
  override window; any other trigger changes nothing at all. The auxiliary input type is
  the upper-cased Tk variable, which is what \<open>trigger_rte\<close> reads.
\<close>

theorem trigger_rte_effect:
  "(py_upper (aux_type_var s) \<in> {''RTE'', ''REX''} \<and> lock_state s = 0 \<longrightarrow>
      rte_override_active (trigger_rte now later s) \<and>
      rte_override_duration (trigger_rte now later s) = 5000 \<and>
      rte_override_start_time (trigger_rte now later s) = now \<and>
      lock_state (trigger_rte now later s) = 1 \<and>
      unlock_start_time (trigger_rte now later s) =
        rte_override_start_time (trigger_rte now later s) \<and>
      unlock_duration (trigger_rte now later s) =
        rte_override_duration (trigger_rte now later s)) \<and>
   (py_upper (aux_type_var s) \<notin> {''RTE'', ''REX''} \<or> lock_state s \<noteq> 0 \<longrightarrow>
      trigger_rte now later s = s)"
  by (simp add: trigger_rte_def activate_fields)

theorem trigger_rte_effect_witness:
  "py_upper (aux_type_var initial) \<in> {''RTE'', ''REX''} \<and> lock_state initial = 0 \<and>
   rte_override_active (trigger_rte 1000 1001 initial) \<and>
   rte_override_duration (trigger_rte 1000 1001 initial) = 5000 \<and>
   lock_state (trigger_rte 1000 1001 initial) = 1 \<and>
   unlock_start_time (trigger_rte 1000 1001 initial) = 1000 \<and>
   lock_state (trigger_rte 1000 1001 initial) \<noteq> 0 \<and>
   trigger_rte 2000 2001 (trigger_rte 1000 1001 initial) = trigger_rte 1000 1001 initial \<and>
   py_upper (aux_type_var (initial\<lparr>aux_type_var := ''DPS''\<rparr>)) \<notin> {''RTE'', ''REX''} \<and>
   trigger_rte 1000 1001 (initial\<lparr>aux_type_var := ''DPS''\<rparr>) = initial\<lparr>aux_type_var := ''DPS''\<rparr>"
proof -
  have a: "py_upper (aux_type_var initial) \<in> {''RTE'', ''REX''}" by code_simp
  have l: "lock_state initial = 0" by code_simp
  have d: "py_upper (aux_type_var (initial\<lparr>aux_type_var := ''DPS''\<rparr>)) \<notin> {''RTE'', ''REX''}"
    by code_simp
  note on = trigger_rte_effect [of initial 1000 1001]
  have 3: "rte_override_active (trigger_rte 1000 1001 initial) \<and>
   rte_override_duration (trigger_rte 1000 1001 initial) = 5000 \<and>
   lock_state (trigger_rte 1000 1001 initial) = 1 \<and>
   unlock_start_time (trigger_rte 1000 1001 initial) = 1000" using on a l by auto
  have n: "lock_state (trigger_rte 1000 1001 initial) \<noteq> 0" using 3 by simp
  note again = trigger_rte_effect [of "trigger_rte 1000 1001 initial" 2000 2001]
  note off = trigger_rte_effect [of "initial\<lparr>aux_type_var := ''DPS''\<rparr>" 1000 1001]
  have 1: "trigger_rte 2000 2001 (trigger_rte 1000 1001 initial) = trigger_rte 1000 1001 initial"
    using again n by blast
  have 2: "trigger_rte 1000 1001 (initial\<lparr>aux_type_var := ''DPS''\<rparr>) = initial\<lparr>aux_type_var := ''DPS''\<rparr>"
    using off d by blast
  show ?thesis using a l d n 1 2 3 by blast
qed

text \<open>
  C4. An override activation is meant to add 1 to the RTE counter exactly when RTE
  counting is enabled at that moment. The code does not do so: \<open>activate_rte_override\<close>
  consults the cached field \<open>rte_count_enabled\<close>, which only \<open>__init__\<close> and
  \<open>handle_command\<close> write, while the same method reads the billing partner, and
  \<open>trigger_rte\<close> the auxiliary input type, from the live Tk variable. On a new controller
  whose check box has been cleared a trigger counts 0 to 1 although counting is disabled;
  once a command has been received the flag is fresh and the same trigger counts nothing.
\<close>

theorem stale_count_flag:
  "\<not> rte_count_enabled_var (run 1000 1001 (SetRteCountEnabled False) initial) \<and>
   rte_count_enabled (run 1000 1001 (SetRteCountEnabled False) initial) \<and>
   rte_count (run 1000 1001 (SetRteCountEnabled False) initial) = 0 \<and>
   rte_override_active
     (run 2000 2001 TriggerRte (run 1000 1001 (SetRteCountEnabled False) initial)) \<and>
   rte_count
     (run 2000 2001 TriggerRte (run 1000 1001 (SetRteCountEnabled False) initial)) = 1 \<and>
   rte_override_active
     (run_all [(500, 501, ConnectSerial), (1000, 1001, SetRteCountEnabled False),
               (1500, 1501, ReceiveLine ''status''), (2000, 2001, TriggerRte)] initial) \<and>
   rte_count
     (run_all [(500, 501, ConnectSerial), (1000, 1001, SetRteCountEnabled False),
               (1500, 1501, ReceiveLine ''status''), (2000, 2001, TriggerRte)] initial) = 0"
  by code_simp

text \<open>
  C5, as amended. In the DFACS dialect with no override active, the \<open>ack\<close> command (any
  letter case) sets the RTE counter to 0 when RTE counting is enabled, leaves the counter
  as it is when counting is disabled, and never touches the override flag. The source
  guards the reset with \<open>if self.rte_count_enabled\<close>, "only if counting is enabled".
\<close>

theorem ack_resets_counter_when_enabled:
  assumes idle: "\<not> rte_override_active s"
    and dfacs: "py_upper (billing_partner_var s) = ''DFACS''"
    and ack: "py_lower (py_strip line) = ''ack''"
  shows "rte_count (handle_command now later line s) =
           (if rte_count_enabled_var s then 0 else rte_count s) \<and>
         rte_override_active (handle_command now later line s) = rte_override_active s"
proof -
  let ?r = "refresh_config s"
  have bp: "billing_partner ?r = ''DFACS''" using dfacs by (simp add: refresh_config_def)
  have "handle_command now later line s = process_normal_commands now later (py_strip line) ?r"
    using idle by (simp add: handle_command_def Let_def refresh_config_def)
  also have "\<dots> = acknowledge later ?r" by (rule process_ack [OF bp ack])
  finally have h: "handle_command now later line s = acknowledge later ?r" .
  show ?thesis
    by (simp add: h acknowledge_def send_status_fields) (simp add: refresh_config_def)
qed

theorem ack_resets_counter_when_enabled_witness:
  "\<not> rte_override_active (initial\<lparr>rte_count := 3\<rparr>) \<and>
   py_upper (billing_partner_var (initial\<lparr>rte_count := 3\<rparr>)) = ''DFACS'' \<and>
   py_lower (py_strip ''ACK'') = ''ack'' \<and>
   rte_count (handle_command 1000 1001 ''ACK'' (initial\<lparr>rte_count := 3\<rparr>)) = 0 \<and>
   \<not> rte_override_active (handle_command 1000 1001 ''ACK'' (initial\<lparr>rte_count := 3\<rparr>))"
proof -
  let ?s = "initial\<lparr>rte_count := 3\<rparr>"
  have i: "\<not> rte_override_active ?s" by code_simp
  have d: "py_upper (billing_partner_var ?s) = ''DFACS''" by code_simp
  have a: "py_lower (py_strip ''ACK'') = ''ack''" by code_simp
  have e: "rte_count_enabled_var ?s" by code_simp
  show ?thesis using ack_resets_counter_when_enabled [OF i d a, of 1000 1001] i d a e by simp
qed

text \<open>
  C5 as stated fails: after one counted override has run out and counting has been
  switched off, \<open>ack\<close> leaves the counter at 1.
\<close>

theorem ack_keeps_counter_when_disabled:
  "\<not> rte_override_active
       (run_all [(1000, 1001, TriggerRte), (6000, 6001, RteOverrideTimer),
                 (7000, 7001, SetRteCountEnabled False)] initial) \<and>
   py_upper (billing_partner_var
       (run_all [(1000, 1001, TriggerRte), (6000, 6001, RteOverrideTimer),
                 (7000, 7001, SetRteCountEnabled False)] initial)) = ''DFACS'' \<and>
   rte_count
       (run_all [(1000, 1001, TriggerRte), (6000, 6001, RteOverrideTimer),
                 (7000, 7001, SetRteCountEnabled False)] initial) = 1 \<and>
   rte_count (handle_command 8000 8001 ''ack''
       (run_all [(1000, 1001, TriggerRte), (6000, 6001, RteOverrideTimer),
                 (7000, 7001, SetRteCountEnabled False)] initial)) = 1"
  by code_simp

text \<open>
  C6, as amended. A line that contains a space is cut at its first space: the text before
  it is the command word, and all the text after it is read as the duration in seconds.
  When \<open>int()\<close> accepts that text the duration is the integer clamped to 1..3600;
  when \<open>int()\<close> raises, the text is discarded and the duration is 5. In every case the
  duration lies in 1..3600. (\<open>py_int_py_str\<close> and \<open>integer_token_clamped\<close> above: the
  decimal text of every integer within the digit limit is read back and clamped.)
\<close>

theorem duration_after_first_space:
  assumes sp: "CHR '' '' \<in> set line"
  shows "\<exists>head rest. line = head @ CHR '' '' # rest \<and> CHR '' '' \<notin> set head \<and>
           parse_duration line =
             (head, case py_int rest of
                      Some n \<Rightarrow> (if n < 1 then 1 else if 3600 < n then 3600 else n)
                    | None \<Rightarrow> 5) \<and>
           1 \<le> snd (parse_duration line) \<and> snd (parse_duration line) \<le> 3600"
proof -
  from split_list_first [OF sp] obtain head rest
    where l: "line = head @ CHR '' '' # rest" and h: "CHR '' '' \<notin> set head" by blast
  have p: "parse_duration line =
             (head, case py_int rest of
                      Some n \<Rightarrow> (if n < 1 then 1 else if 3600 < n then 3600 else n)
                    | None \<Rightarrow> 5)"
    by (simp add: l parse_duration_split [OF h] max_def min_def split: option.split)
  have "1 \<le> snd (parse_duration line) \<and> snd (parse_duration line) \<le> 3600"
    by (simp add: p split: option.split)
  then show ?thesis using l h p by blast
qed

theorem duration_after_first_space_witness:
  "CHR '' '' \<in> set ''0 4000'' \<and>
   1 \<le> snd (parse_duration ''0 4000'') \<and> snd (parse_duration ''0 4000'') \<le> 3600 \<and>
   parse_duration ''0 4000'' = (''0'', 3600) \<and>
   parse_duration ''0 -3'' = (''0'', 1) \<and>
   parse_duration ''0 10'' = (''0'', 10) \<and>
   parse_duration ''0  1_0'' = (''0'', 10) \<and>
   parse_duration ''0 ten'' = (''0'', 5) \<and>
   parse_duration (''0 '' @ [CHR 0x1C] @ ''7'') = (''0'', 5) \<and>
   parse_duration (''0 '' @ [CHR 0xA0] @ ''7'') = (''0'', 7)"
proof -
  have sp: "CHR '' '' \<in> set ''0 4000''" by simp
  have b: "1 \<le> snd (parse_duration ''0 4000'') \<and> snd (parse_duration ''0 4000'') \<le> 3600"
    using duration_after_first_space [OF sp] by blast
  have e: "parse_duration ''0 4000'' = (''0'', 3600) \<and>
           parse_duration ''0 -3'' = (''0'', 1) \<and>
           parse_duration ''0 10'' = (''0'', 10) \<and>
           parse_duration ''0  1_0'' = (''0'', 10) \<and>
           parse_duration ''0 ten'' = (''0'', 5) \<and>
           parse_duration (''0 '' @ [CHR 0x1C] @ ''7'') = (''0'', 5) \<and>
           parse_duration (''0 '' @ [CHR 0xA0] @ ''7'') = (''0'', 7)" by code_simp
  show ?thesis using sp b e by blast
qed

text \<open>
  C6 as stated fails on a line with more than one space: the trailing token of \<open>0 5 7\<close> is
  the integer 7, so the duration would be 7 seconds, but the code reads \<open>5 7\<close>, which is
  no integer, and unlocks for the default 5 seconds.
\<close>

theorem trailing_token_not_used:
  "CHR '' '' \<in> set ''0 5 7'' \<and>
   trailing_token ''0 5 7'' = ''7'' \<and>
   py_int (trailing_token ''0 5 7'') = Some 7 \<and>
   spec_duration ''0 5 7'' = 7 \<and>
   parse_duration ''0 5 7'' = (''0'', 5) \<and>
   lock_state (handle_command 1000 1001 ''0 5 7'' initial) = 1 \<and>
   unlock_duration (handle_command 1000 1001 ''0 5 7'' initial) = 5000"
  by code_simp

text \<open>
  C7. In each of the three dialects, with no override active, the lock command \<open>z\<close> (any
  letter case) leaves the lock locked whatever the lock state was, and a second lock
  command changes nothing of the resulting state: it only emits the status again.
\<close>

theorem lock_command_idempotent:
  assumes idle: "\<not> rte_override_active s"
    and dialect: "py_upper (billing_partner_var s) \<in> {''ABC'', ''PEAK'', ''DFACS''}"
    and z: "py_lower (py_strip line) = ''z''"
    and z': "py_lower (py_strip line') = ''z''"
  shows "lock_state (handle_command now later line s) = 0 \<and>
         \<not> rte_override_active (handle_command now later line s) \<and>
         owned (handle_command now' later' line' (handle_command now later line s)) =
           owned (handle_command now later line s) \<and>
         handle_command now' later' line' (handle_command now later line s) =
           send_status later' (handle_command now later line s)"
proof -
  let ?s1 = "handle_command now later line s"
  have h1: "?s1 = lock later (refresh_config s)"
    by (rule handle_lock [OF idle dialect z])
  have l1: "lock_state ?s1 = 0"
    by (simp add: h1 lock_def send_status_fields)
  have idle1: "\<not> rte_override_active ?s1"
    using idle by (simp add: h1 lock_def send_status_fields refresh_config_def)
  have dialect1: "py_upper (billing_partner_var ?s1) \<in> {''ABC'', ''PEAK'', ''DFACS''}"
    using dialect by (simp add: h1 lock_def send_status_fields refresh_config_def)
  have "handle_command now' later' line' ?s1 = lock later' (refresh_config ?s1)"
    by (rule handle_lock [OF idle1 dialect1 z'])
  also have "refresh_config ?s1 = ?s1"
    by (simp only: h1 refresh_config_lock)
  also have "lock later' ?s1 = send_status later' ?s1"
    by (rule lock_again [OF l1])
  finally have h2: "handle_command now' later' line' ?s1 = send_status later' ?s1" .
  show ?thesis using l1 idle1 h2 by (simp add: owned_send_status)
qed

theorem lock_command_idempotent_witness:
  "\<not> rte_override_active (toggle_lock_state 1001 initial) \<and>
   py_upper (billing_partner_var (toggle_lock_state 1001 initial)) \<in> {''ABC'', ''PEAK'', ''DFACS''} \<and>
   py_lower (py_strip ''Z'') = ''z'' \<and> py_lower (py_strip '' z '') = ''z'' \<and>
   lock_state (toggle_lock_state 1001 initial) = 2 \<and>
   lock_state (handle_command 2000 2001 ''Z'' (toggle_lock_state 1001 initial)) = 0 \<and>
   owned (handle_command 3000 3001 '' z '' (handle_command 2000 2001 ''Z'' (toggle_lock_state 1001 initial))) =
     owned (handle_command 2000 2001 ''Z'' (toggle_lock_state 1001 initial))"
proof -
  let ?s = "toggle_lock_state 1001 initial"
  have i: "\<not> rte_override_active ?s" by code_simp
  have d: "py_upper (billing_partner_var ?s) \<in> {''ABC'', ''PEAK'', ''DFACS''}" by code_simp
  have z: "py_lower (py_strip ''Z'') = ''z''" by code_simp
  have z': "py_lower (py_strip '' z '') = ''z''" by code_simp
  have u: "lock_state ?s = 2" by code_simp
  note th = lock_command_idempotent [OF i d z z', of 2000 2001 3000 3001]
  show ?thesis using i d z z' u th by blast
qed

text \<open>
  C8. Every status record is written by \<open>send_status\<close>, and only with a port open and the
  billing partner DFACS. The record it writes carries, as its fifth field, the decimal
  text of \<open>time_remaining\<close>, which is never negative: it is the whole seconds left of
  the override window while the override is active, else the whole seconds left of the
  unlock window while the lock is temporarily unlocked, else 0.
\<close>

theorem time_remaining_authoritative:
  "0 \<le> time_remaining now s \<and>
   (rte_override_active s \<longrightarrow>
      time_remaining now s =
        \<lfloor>max 0 (rte_override_start_time s + real_of_int (rte_override_duration s) - now) / 1000\<rfloor>) \<and>
   (\<not> rte_override_active s \<and> lock_state s = 1 \<longrightarrow>
      time_remaining now s =
        \<lfloor>max 0 (unlock_start_time s + real_of_int (unlock_duration s) - now) / 1000\<rfloor>) \<and>
   (\<not> rte_override_active s \<and> lock_state s \<noteq> 1 \<longrightarrow> time_remaining now s = 0) \<and>
   status_record now s =
     ''STATUS,'' @ py_str (lock_state s) @ '','' @ py_str (rte_count s) @ '','' @
     (if py_upper (aux_type_var s) = ''DPS'' \<or> py_upper (aux_type_var s) = ''BOND''
      then door_state s else ''NA'') @
     '','' @ py_str (time_remaining now s) @ '','' @
     (if rte_override_active s then ''RTE_ACTIVE'' else ''NORMAL'') \<and>
   (ser s = Some out \<and> py_upper (billing_partner_var s) = ''DFACS'' \<longrightarrow>
      ser (send_status now s) = Some (out @ [status_record now s @ newline]) \<and>
      owned (send_status now s) = owned s) \<and>
   (ser s = None \<or> py_upper (billing_partner_var s) \<noteq> ''DFACS'' \<longrightarrow>
      send_status now s = s)"
proof -
  have a: "rte_override_active s \<Longrightarrow> time_remaining now s =
        \<lfloor>max 0 (rte_override_start_time s + real_of_int (rte_override_duration s) - now) / 1000\<rfloor>"
    unfolding time_remaining_def Let_def by (simp only: if_True remaining_floor)
  have b: "\<not> rte_override_active s \<Longrightarrow> lock_state s = 1 \<Longrightarrow> time_remaining now s =
        \<lfloor>max 0 (unlock_start_time s + real_of_int (unlock_duration s) - now) / 1000\<rfloor>"
    unfolding time_remaining_def Let_def by (simp only: if_True if_False remaining_floor refl)
  have c: "\<not> rte_override_active s \<Longrightarrow> lock_state s \<noteq> 1 \<Longrightarrow> time_remaining now s = 0"
    by (simp add: time_remaining_def)
  have d: "0 \<le> time_remaining now s"
    unfolding time_remaining_def Let_def using remaining_nonneg by simp
  have e: "status_record now s =
     ''STATUS,'' @ py_str (lock_state s) @ '','' @ py_str (rte_count s) @ '','' @
     (if py_upper (aux_type_var s) = ''DPS'' \<or> py_upper (aux_type_var s) = ''BOND''
      then door_state s else ''NA'') @
     '','' @ py_str (time_remaining now s) @ '','' @
     (if rte_override_active s then ''RTE_ACTIVE'' else ''NORMAL'')"
    by (simp add: status_record_def)
  have f: "ser s = Some out \<Longrightarrow> py_upper (billing_partner_var s) = ''DFACS'' \<Longrightarrow>
      ser (send_status now s) = Some (out @ [status_record now s @ newline])"
    by (simp add: send_status_ser)
  have g: "ser s = None \<or> py_upper (billing_partner_var s) \<noteq> ''DFACS'' \<Longrightarrow>
      send_status now s = s"
    by (auto simp: send_status_def)
  show ?thesis using a b c d e f g owned_send_status [of now s] by blast
qed

theorem time_remaining_authoritative_witness:
  "rte_override_active (trigger_rte 1000 1001 (connect_serial initial)) \<and>
   time_remaining 3500 (trigger_rte 1000 1001 (connect_serial initial)) = 2 \<and>
   ser (send_status 3500 (trigger_rte 1000 1001 (connect_serial initial))) =
     Some [''STATUS,1,1,NA,4,RTE_ACTIVE'' @ newline, ''RTE_OVERRIDE,ACTIVATED,5'' @ newline,
           ''STATUS,1,1,NA,2,RTE_ACTIVE'' @ newline] \<and>
   \<not> rte_override_active (handle_command 1000 1001 ''0 10'' initial) \<and>
   lock_state (handle_command 1000 1001 ''0 10'' initial) = 1 \<and>
   time_remaining 3500 (handle_command 1000 1001 ''0 10'' initial) = 7 \<and>
   ser (handle_command 1000 1001 ''0 10'' initial) = None \<and>
   send_status 3500 (handle_command 1000 1001 ''0 10'' initial) =
     handle_command 1000 1001 ''0 10'' initial \<and>
   \<not> rte_override_active initial \<and> lock_state initial \<noteq> 1 \<and>
   time_remaining 3500 initial = 0"
proof -
  let ?o = "trigger_rte 1000 1001 (connect_serial initial)"
  let ?u = "handle_command 1000 1001 ''0 10'' initial"
  let ?out = "[''STATUS,1,1,NA,4,RTE_ACTIVE'' @ newline, ''RTE_OVERRIDE,ACTIVATED,5'' @ newline]"
  have ao: "rte_override_active ?o" by code_simp
  have po: "ser ?o = Some ?out" by code_simp
  have bo: "py_upper (billing_partner_var ?o) = ''DFACS''" by code_simp
  have ro: "status_record 3500 ?o = ''STATUS,1,1,NA,2,RTE_ACTIVE''" by code_simp
  have au: "\<not> rte_override_active ?u" by code_simp
  have lu: "lock_state ?u = 1" by code_simp
  have pu: "ser ?u = None" by code_simp
  have ai: "\<not> rte_override_active initial" by code_simp
  have li: "lock_state initial \<noteq> 1" by code_simp
  have fo: "\<lfloor>max 0 (rte_override_start_time ?o + real_of_int (rte_override_duration ?o) - 3500)
             / 1000\<rfloor> = 2" by code_simp
  have fu: "\<lfloor>max 0 (unlock_start_time ?u + real_of_int (unlock_duration ?u) - 3500)
             / 1000\<rfloor> = 7" by code_simp
  note o = time_remaining_authoritative [of 3500 ?o ?out]
  note u = time_remaining_authoritative [of 3500 ?u]
  have 1: "time_remaining 3500 ?o = 2" using o ao fo by simp
  have "ser (send_status 3500 ?o) = Some (?out @ [status_record 3500 ?o @ newline])"
    using o po bo by blast
  then have 2: "ser (send_status 3500 ?o) =
     Some [''STATUS,1,1,NA,4,RTE_ACTIVE'' @ newline, ''RTE_OVERRIDE,ACTIVATED,5'' @ newline,
           ''STATUS,1,1,NA,2,RTE_ACTIVE'' @ newline]"
    using ro by simp
  have 3: "time_remaining 3500 ?u = 7" using u au lu fu by simp
  have 4: "send_status 3500 ?u = ?u" using u pu by blast
  have 5: "time_remaining 3500 initial = 0"
    using time_remaining_authoritative [of 3500 initial] ai li by blast
  show ?thesis using ao au lu pu ai li 1 2 3 4 5 by blast
qed

text \<open>
  C9, as amended. The object has no reset operation. Its owned state has the construction
  defaults (locked, RTE counter 0, door closed, unlock timer start 0 and duration 5000 ms,
  override inactive with start 0 and duration 0) when \<open>__init__\<close> has run, and no
  operation brings every reachable state back to them: in the state that one RTE trigger
  makes of a new object, whatever operation runs next leaves the RTE counter at 1.
\<close>

theorem no_operation_resets:
  "owned initial = ((0, 0, ''CLOSED''), (0, 5000), (False, 0, 0)) \<and>
   reachable (run t0 t1 TriggerRte initial) \<and>
   rte_count (run now later opn (run t0 t1 TriggerRte initial)) = 1 \<and>
   owned (run now later opn (run t0 t1 TriggerRte initial)) \<noteq> owned initial"
proof -
  have c: "rte_count (run now later opn (run t0 t1 TriggerRte initial)) = 1"
    by (rule count_after_trigger)
  then have "owned (run now later opn (run t0 t1 TriggerRte initial)) \<noteq> owned initial"
    by (simp add: owned_def initial_def)
  then show ?thesis using c owned_initial reachable_after_trigger by blast
qed

theorem no_operation_resets_witness:
  "owned (run 6000 6001 RteOverrideTimer (run 1000 1001 TriggerRte initial)) =
     ((0, 1, ''CLOSED''), (1000, 5000), (False, 1000, 5000)) \<and>
   rte_count (run 6000 6001 RteOverrideTimer (run 1000 1001 TriggerRte initial)) = 1 \<and>
   owned (run 6000 6001 RteOverrideTimer (run 1000 1001 TriggerRte initial)) \<noteq> owned initial"
proof -
  have "owned (run 6000 6001 RteOverrideTimer (run 1000 1001 TriggerRte initial)) =
     ((0, 1, ''CLOSED''), (1000, 5000), (False, 1000, 5000))" by code_simp
  then show ?thesis
    using no_operation_resets [of 1000 1001 6000 6001 RteOverrideTimer] by blast
qed

text \<open>
  C9 as stated fails: no operation of the object takes every reachable state to the
  construction defaults.
\<close>

theorem no_reset_operation:
  "\<not> (\<exists>opn. \<forall>s now later. reachable s \<longrightarrow> owned (run now later opn s) = owned initial)"
proof
  assume "\<exists>opn. \<forall>s now later. reachable s \<longrightarrow> owned (run now later opn s) = owned initial"
  then obtain opn where
    all: "\<forall>s now later. reachable s \<longrightarrow> owned (run now later opn s) = owned initial" ..
  let ?s = "run 1000 1001 TriggerRte initial"
  have "owned (run 2000 2001 opn ?s) = owned initial"
    using all reachable_after_trigger by blast
  then have "rte_count (run 2000 2001 opn ?s) = 0"
    by (simp add: owned_def initial_def)
  moreover have "rte_count (run 2000 2001 opn ?s) = 1"
    by (rule count_after_trigger)
  ultimately show False by simp
qed

text \<open>
  C10. During an override a status query is matched in any letter case before the
  dialect is looked at. Outside DFACS the status emission returns without writing, so
  the query changes nothing but the configuration snapshot that every command refreshes;
  neither a status line nor a rejection is written. In DFACS the status record is written.
\<close>

theorem status_query_during_override:
  assumes act: "rte_override_active s" and q: "py_upper (py_strip line) = ''STATUS''"
  shows "(py_upper (billing_partner_var s) \<noteq> ''DFACS'' \<longrightarrow>
            handle_command now later line s = refresh_config s \<and>
            owned (handle_command now later line s) = owned s \<and>
            ser (handle_command now later line s) = ser s) \<and>
         (py_upper (billing_partner_var s) = ''DFACS'' \<longrightarrow>
            owned (handle_command now later line s) = owned s \<and>
            ser (handle_command now later line s) =
              map_option (\<lambda>out. out @ [status_record later s @ newline]) (ser s))"
proof -
  let ?r = "refresh_config s"
  have r: "rte_override_active ?r" "billing_partner_var ?r = billing_partner_var s"
          "ser ?r = ser s"
    using act by (simp_all add: refresh_config_def)
  have h: "handle_command now later line s = send_status later ?r"
    using r(1) q by (simp add: handle_command_def Let_def)
  have o: "owned (handle_command now later line s) = owned s"
    by (simp add: h owned_send_status owned_refresh_config)
  have e: "ser (handle_command now later line s) =
     (if py_upper (billing_partner_var s) = ''DFACS''
      then map_option (\<lambda>out. out @ [status_record later s @ newline]) (ser s) else ser s)"
    by (simp add: h send_status_ser r status_record_refresh)
  have n: "py_upper (billing_partner_var s) \<noteq> ''DFACS'' \<Longrightarrow> send_status later ?r = ?r"
    by (simp add: send_status_def r)
  show ?thesis using h o e n r(3) by (simp add: owned_refresh_config)
qed

theorem status_query_during_override_witness:
  "rte_override_active
     (trigger_rte 1000 1001 (connect_serial (initial\<lparr>billing_partner_var := ''PEAK''\<rparr>))) \<and>
   py_upper (py_strip ''Status'') = ''STATUS'' \<and>
   ser (handle_command 2000 2001 ''Status''
          (trigger_rte 1000 1001 (connect_serial (initial\<lparr>billing_partner_var := ''PEAK''\<rparr>)))) =
     Some [] \<and>
   owned (handle_command 2000 2001 ''Status''
            (trigger_rte 1000 1001 (connect_serial (initial\<lparr>billing_partner_var := ''PEAK''\<rparr>)))) =
     owned (trigger_rte 1000 1001 (connect_serial (initial\<lparr>billing_partner_var := ''PEAK''\<rparr>))) \<and>
   rte_override_active (trigger_rte 1000 1001 (connect_serial initial)) \<and>
   ser (handle_command 2000 2001 ''Status'' (trigger_rte 1000 1001 (connect_serial initial))) =
     Some [''STATUS,1,1,NA,4,RTE_ACTIVE'' @ newline, ''RTE_OVERRIDE,ACTIVATED,5'' @ newline,
           ''STATUS,1,1,NA,3,RTE_ACTIVE'' @ newline]"
proof -
  let ?p = "trigger_rte 1000 1001 (connect_serial (initial\<lparr>billing_partner_var := ''PEAK''\<rparr>))"
  let ?d = "trigger_rte 1000 1001 (connect_serial initial)"
  have ap: "rte_override_active ?p" by code_simp
  have ad: "rte_override_active ?d" by code_simp
  have q: "py_upper (py_strip ''Status'') = ''STATUS''" by code_simp
  have bp: "py_upper (billing_partner_var ?p) \<noteq> ''DFACS''" by code_simp
  have bd: "py_upper (billing_partner_var ?d) = ''DFACS''" by code_simp
  have sp: "ser ?p = Some []" by code_simp
  have sd: "ser ?d = Some [''STATUS,1,1,NA,4,RTE_ACTIVE'' @ newline,
                           ''RTE_OVERRIDE,ACTIVATED,5'' @ newline]" by code_simp
  have rec: "status_record 2001 ?d = ''STATUS,1,1,NA,3,RTE_ACTIVE''" by code_simp
  have 1: "owned (handle_command 2000 2001 ''Status'' ?p) = owned ?p \<and>
           ser (handle_command 2000 2001 ''Status'' ?p) = ser ?p"
    using status_query_during_override [OF ap q, of 2000 2001] bp by blast
  have 2: "ser (handle_command 2000 2001 ''Status'' ?d) =
             map_option (\<lambda>out. out @ [status_record 2001 ?d @ newline]) (ser ?d)"
    using status_query_during_override [OF ad q, of 2000 2001] bd by blast
  have 3: "ser (handle_command 2000 2001 ''Status'' ?d) =
     Some [''STATUS,1,1,NA,4,RTE_ACTIVE'' @ newline, ''RTE_OVERRIDE,ACTIVATED,5'' @ newline,
           ''STATUS,1,1,NA,3,RTE_ACTIVE'' @ newline]"
    using 2 sd rec by simp
  have 4: "ser (handle_command 2000 2001 ''Status'' ?p) = Some []" using 1 sp by simp
  show ?thesis using ap ad q 1 3 4 by blast
qed

end
